theory Spec2Isabelle
  imports Complex_Main "HOL-Library.Multiset"
begin

section \<open>gatsby-image: the visibility-and-load controller of \<open>index.js\<close>\<close>

text \<open>
  A shallow embedding of \<open>packages/gatsby-image/src/index.js\<close>. Module-level mutable
  variables (\<open>imageCache\<close>, \<open>io\<close>, \<open>listeners\<close>) are passed explicitly as state, a
  thrown \<open>TypeError\<close> is the left summand of a result, and React's component instance is a
  record. JSX markup is kept only as far as it decides behaviour: which handler is wired to
  which element and which style object an element receives. Console output
  (\<open>logDeprecationNotice\<close>, \<open>console.warn\<close>) changes no state and is left out.
\<close>

subsection \<open>Values\<close>

datatype error = TypeError

text \<open>
  One image variant (\<open>fluidObject\<close> / \<open>fixedObject\<close>). \<open>src\<close> is required by the
  prop types; \<open>media\<close> is optional (\<open>None\<close> is \<open>undefined\<close>).
\<close>

record variant =
  src :: string
  media :: "string option"

datatype loading_attr = Auto | Lazy | Eager

text \<open>
  A style object is a finite map from property names to values; the object spread
  \<open>{...a, ...b}\<close> is \<open>a ++ b\<close> (later keys win). The template strings
  \<open>`opacity ${d}ms`\<close> and \<open>`${d}ms`\<close> are kept as constructors over the
  number \<open>d\<close>.
\<close>

datatype style_value =
    Num int
  | Str string
  | OpacityMs int
  | Ms int

type_synonym style = "string \<rightharpoonup> style_value"

text \<open>
  The props of the component. \<open>fluid\<close>, \<open>fixed\<close> and the legacy \<open>sizes\<close>,
  \<open>resolutions\<close> hold one variant or an array of them; \<open>[].concat(x)\<close> makes both an
  array, so a single object is the one-element list here and \<open>None\<close> is an absent prop.
  The three hooks are user functions; only their presence is visible to the component.
\<close>

record props =
  fluid :: "variant list option"
  fixed :: "variant list option"
  sizes :: "variant list option"
  resolutions :: "variant list option"
  critical :: bool
  fadeInProp :: bool
  loading :: loading_attr
  durationFadeIn :: int
  imgStyle :: style
  placeholderStyle :: style
  onStartLoad :: bool
  onLoad :: bool
  onError :: bool

subsection \<open>\<open>groupByMedia\<close>\<close>

text \<open>
  \<open>variant.media ? withMedia : without\<close>: a string is truthy when it is present and
  not empty.
\<close>

definition media_truthy :: "variant \<Rightarrow> bool" where
  "media_truthy v = (case media v of None \<Rightarrow> False | Some m \<Rightarrow> m \<noteq> [])"

text \<open>One step of the \<open>forEach\<close>: push the variant on one of the two arrays.\<close>

definition push_variant :: "variant \<Rightarrow> variant list \<times> variant list \<Rightarrow> variant list \<times> variant list" where
  "push_variant v acc =
     (if media_truthy v then (fst acc @ [v], snd acc) else (fst acc, snd acc @ [v]))"

definition groupByMedia :: "variant list \<Rightarrow> variant list" where
  "groupByMedia imageVariants =
     (let acc = fold push_variant imageVariants ([], [])
      in fst acc @ snd acc)"

subsection \<open>\<open>convertProps\<close> and \<open>getImageSrcKey\<close>\<close>

definition convertProps :: "props \<Rightarrow> props" where
  "convertProps p =
     (let p1 = (case resolutions p of
                  Some r \<Rightarrow> p\<lparr>fixed := Some r, resolutions := None\<rparr>
                | None \<Rightarrow> p);
          p2 = (case sizes p of
                  Some s \<Rightarrow> p1\<lparr>fluid := Some s, sizes := None\<rparr>
                | None \<Rightarrow> p1);
          p3 = (if critical p then p2\<lparr>loading := Eager\<rparr> else p2);
          p4 = (case fluid p3 of
                  Some f \<Rightarrow> p3\<lparr>fluid := Some (groupByMedia f)\<rparr>
                | None \<Rightarrow> p3)
      in (case fixed p4 of
            Some f \<Rightarrow> p4\<lparr>fixed := Some (groupByMedia f)\<rparr>
          | None \<Rightarrow> p4))"

text \<open>\<open>xs && xs[0]\<close>: the first element, \<open>undefined\<close> for an absent or empty array.\<close>

definition first_variant :: "variant list option \<Rightarrow> variant option" where
  "first_variant xs = (case xs of None \<Rightarrow> None | Some [] \<Rightarrow> None | Some (v # _) \<Rightarrow> Some v)"

text \<open>
  \<open>const data = (fluid && fluid[0]) || (fixed && fixed[0]); return data.src\<close>. Reading
  \<open>.src\<close> of \<open>undefined\<close> throws.
\<close>

definition getImageSrcKey :: "props \<Rightarrow> error + string" where
  "getImageSrcKey p =
     (case (case first_variant (fluid p) of Some v \<Rightarrow> Some v | None \<Rightarrow> first_variant (fixed p)) of
        None \<Rightarrow> Inl TypeError
      | Some data \<Rightarrow> Inr (src data))"

subsection \<open>The image cache\<close>

text \<open>
  \<open>const imageCache = Object.create({})\<close> is an object whose prototype is a fresh
  \<open>{}\<close>, whose prototype in turn is \<open>Object.prototype\<close>. The only write is
  \<open>imageCache[src] = true\<close>, so its own properties are a set of keys. A read
  \<open>imageCache[src]\<close> that finds no own property walks the prototype chain and finds the
  members every object inherits from \<open>Object.prototype\<close>, listed below (functions, and
  for \<open>__proto__\<close> the prototype object): all of them truthy.
\<close>

type_synonym image_cache = "string set"

definition empty_cache :: image_cache where
  "empty_cache = {}"

definition object_prototype_keys :: "string list" where
  "object_prototype_keys =
     [''constructor'', ''hasOwnProperty'', ''isPrototypeOf'', ''propertyIsEnumerable'',
      ''toLocaleString'', ''toString'', ''valueOf'', ''__proto__'',
      ''__defineGetter__'', ''__defineSetter__'', ''__lookupGetter__'', ''__lookupSetter__'']"

text \<open>
  What \<open>imageCache[src] || false\<close> evaluates to: \<open>true\<close> for an own property,
  an inherited member, or \<open>false\<close>.
\<close>

datatype cache_value = JsFalse | JsTrue | JsInherited string

definition truthy :: "cache_value \<Rightarrow> bool" where
  "truthy v = (case v of JsFalse \<Rightarrow> False | JsTrue \<Rightarrow> True | JsInherited _ \<Rightarrow> True)"

definition cache_get :: "image_cache \<Rightarrow> string \<Rightarrow> cache_value" where
  "cache_get c k =
     (if k \<in> c then JsTrue
      else if k \<in> set object_prototype_keys then JsInherited k
      else JsFalse)"

text \<open>
  \<open>imageCache[src] = true\<close>. For the key \<open>__proto__\<close> the assignment calls the
  inherited setter, which ignores a value that is not an object: no property is created.
\<close>

definition cache_set :: "image_cache \<Rightarrow> string \<Rightarrow> image_cache" where
  "cache_set c k = (if k = ''__proto__'' then c else insert k c)"

definition inImageCache :: "image_cache \<Rightarrow> props \<Rightarrow> error + cache_value" where
  "inImageCache c p =
     (case getImageSrcKey (convertProps p) of
        Inl e \<Rightarrow> Inl e
      | Inr k \<Rightarrow> Inr (cache_get c k))"

definition activateCacheForImage :: "image_cache \<Rightarrow> props \<Rightarrow> error + image_cache" where
  "activateCacheForImage c p =
     (case getImageSrcKey (convertProps p) of
        Inl e \<Rightarrow> Inl e
      | Inr k \<Rightarrow> Inr (cache_set c k))"

subsection \<open>Capabilities of the environment\<close>

text \<open>
  The facts the module reads once when it is loaded: whether \<open>window\<close> is defined,
  whether \<open>window.IntersectionObserver\<close> exists, and the value of
  \<open>hasNativeLazyLoadSupport\<close>.
\<close>

record env =
  window_defined :: bool
  window_IntersectionObserver :: bool
  hasNativeLazyLoadSupport :: bool

definition isBrowser :: "env \<Rightarrow> bool" where
  "isBrowser e = window_defined e"

definition hasIOSupport :: "env \<Rightarrow> bool" where
  "hasIOSupport e = (isBrowser e \<and> window_IntersectionObserver e)"

subsection \<open>The shared intersection observer and its listeners\<close>

type_synonym elem = nat

text \<open>
  \<open>io\<close> is whether the module variable \<open>io\<close> holds an observer, \<open>observed\<close> the
  elements that observer watches, \<open>listeners\<close> the \<open>WeakMap\<close> from elements to
  callbacks. A callback is an opaque value of type \<open>'cb\<close>.
\<close>

record 'cb registry =
  io :: bool
  observed :: "elem set"
  listeners :: "elem \<rightharpoonup> 'cb"

definition empty_registry :: "'cb registry" where
  "empty_registry = \<lparr>io = False, observed = {}, listeners = Map.empty\<rparr>"

text \<open>
  An \<open>IntersectionObserverEntry\<close>. \<open>isIntersecting\<close> is \<open>undefined\<close> on browsers
  without it, which is falsy: \<open>False\<close> here.
\<close>

record entry =
  target :: elem
  isIntersecting :: bool
  intersectionRatio :: rat

text \<open>
  \<open>getIO\<close>: create the observer on first use when the environment has one; return
  \<open>io\<close> (the second component says whether it is defined).
\<close>

definition getIO :: "env \<Rightarrow> 'cb registry \<Rightarrow> 'cb registry \<times> bool" where
  "getIO e reg =
     (if \<not> io reg \<and> window_defined e \<and> window_IntersectionObserver e
      then (reg\<lparr>io := True\<rparr>, True)
      else (reg, io reg))"

text \<open>
  A call of a callback, recorded with the registry as it is when the body of the callback
  starts to run. The callbacks themselves do not touch the registry.
\<close>

type_synonym 'cb invocation = "elem \<times> 'cb \<times> 'cb registry"

text \<open>The body of \<open>entries.forEach\<close> in the observer's callback.\<close>

definition handle_entry ::
  "entry \<Rightarrow> 'cb registry \<times> 'cb invocation list \<Rightarrow> 'cb registry \<times> 'cb invocation list" where
  "handle_entry en s =
     (case listeners (fst s) (target en) of
        None \<Rightarrow> s
      | Some cb \<Rightarrow>
          if isIntersecting en \<or> intersectionRatio en > 0
          then (let reg' = (fst s)\<lparr>observed := observed (fst s) - {target en},
                                   listeners := (listeners (fst s))(target en := None)\<rparr>
                in (reg', snd s @ [(target en, cb, reg')]))
          else s)"

text \<open>One report of the observer: its callback runs over the entries in order.\<close>

definition io_callback ::
  "entry list \<Rightarrow> 'cb registry \<times> 'cb invocation list \<Rightarrow> 'cb registry \<times> 'cb invocation list" where
  "io_callback entries s = fold handle_entry entries s"

definition io_reports ::
  "entry list list \<Rightarrow> 'cb registry \<times> 'cb invocation list \<Rightarrow> 'cb registry \<times> 'cb invocation list" where
  "io_reports reports s = fold io_callback reports s"

text \<open>The calls made for one element.\<close>

definition calls_for :: "elem \<Rightarrow> 'cb invocation list \<Rightarrow> 'cb invocation list" where
  "calls_for el calls = filter (\<lambda>i. fst i = el) calls"

text \<open>
  The function \<open>listenToIntersections\<close> returns: a closure over \<open>observer\<close> (defined or
  not) and \<open>el\<close>.
\<close>

datatype unsubscribe = Unsubscribe bool elem

definition listenToIntersections ::
  "env \<Rightarrow> elem \<Rightarrow> 'cb \<Rightarrow> 'cb registry \<Rightarrow> 'cb registry \<times> unsubscribe" where
  "listenToIntersections e el cb reg =
     (let r = getIO e reg;
          reg1 = fst r;
          observer = snd r;
          reg2 = (if observer
                  then reg1\<lparr>observed := insert el (observed reg1),
                            listeners := (listeners reg1)(el \<mapsto> cb)\<rparr>
                  else reg1)
      in (reg2, Unsubscribe observer el))"

text \<open>
  Calling the returned closure: \<open>observer.unobserve(el); listeners.delete(el)\<close>. With
  \<open>observer\<close> undefined the first statement throws.
\<close>

fun call_unsubscribe :: "unsubscribe \<Rightarrow> 'cb registry \<Rightarrow> error + 'cb registry" where
  "call_unsubscribe (Unsubscribe observer el) reg =
     (if observer
      then Inr (reg\<lparr>observed := observed reg - {el}, listeners := (listeners reg)(el := None)\<rparr>)
      else Inl TypeError)"

subsection \<open>The \<open>Image\<close> component\<close>

record istate =
  isVisible :: bool
  imgLoaded :: bool
  imgCached :: bool
  fadeIn :: bool

text \<open>
  The instance: its props, the fields the constructor sets, its React state and the
  \<open>cleanUpListeners\<close> closure once \<open>handleRef\<close> has stored one. Fields that hold any
  JavaScript value and are only ever tested for truth (\<open>seenBefore\<close>,
  \<open>useIOSupport\<close>, \<open>imgLoaded\<close>) hold that truth value here.
\<close>

record controller =
  props :: props
  seenBefore :: bool
  addNoScript :: bool
  useIOSupport :: bool
  state :: istate
  cleanUpListeners :: "unsubscribe option"

definition new_controller :: "env \<Rightarrow> props \<Rightarrow> bool \<Rightarrow> controller" where
  "new_controller e p seen =
     (let uio = (\<not> hasNativeLazyLoadSupport e \<and> hasIOSupport e \<and> \<not> critical p \<and> \<not> seen);
          vis = (critical p \<or> loading p = Eager \<or>
                 (isBrowser e \<and> (hasNativeLazyLoadSupport e \<or> \<not> uio)))
      in \<lparr>props = p,
          seenBefore = seen,
          addNoScript = (\<not> (critical p \<and> \<not> fadeInProp p)),
          useIOSupport = uio,
          state = \<lparr>isVisible = vis, imgLoaded = False, imgCached = False,
                   fadeIn = (\<not> seen \<and> fadeInProp p)\<rparr>,
          cleanUpListeners = None\<rparr>)"

text \<open>
  The constructor. \<open>isBrowser && inImageCache(props)\<close> calls \<open>inImageCache\<close> only in
  a browser; an exception it throws leaves the constructor.
\<close>

definition Image_constructor :: "env \<Rightarrow> image_cache \<Rightarrow> props \<Rightarrow> error + controller" where
  "Image_constructor e c p =
     (if isBrowser e
      then (case inImageCache c p of
              Inl err \<Rightarrow> Inl err
            | Inr v \<Rightarrow> Inr (new_controller e p (truthy v)))
      else Inr (new_controller e p False))"

subsection \<open>\<open>render\<close>\<close>

text \<open>
  The handlers \<open>render\<close> wires to the full image: \<open>onLoad={this.handleImageLoaded}\<close>
  and \<open>onError={this.props.onError}\<close> (absent when the prop is).
\<close>

datatype handler = BoundHandleImageLoaded | PropsOnError

record img_wiring =
  img_onLoad :: handler
  img_onError :: "handler option"

text \<open>
  What \<open>render\<close> decides: the two local flags, the style object of the full image, the
  style object of the placeholder images, the full image with its handlers (present only
  when \<open>this.state.isVisible\<close>) and whether the \<open>noscript\<close> copy is emitted.
\<close>

record rendered =
  shouldReveal :: bool
  shouldFadeIn :: bool
  imageStyle :: style
  imagePlaceholderStyle :: style
  mainImage :: "img_wiring option"
  noscript :: bool

datatype render_result = RenderNull | RenderTag rendered

definition delayHideStyle :: "props \<Rightarrow> style" where
  "delayHideStyle cp = [''transitionDelay'' \<mapsto> Ms (durationFadeIn cp)]"

definition render_tag :: "controller \<Rightarrow> props \<Rightarrow> rendered" where
  "render_tag ctl cp =
     (let reveal = (fadeIn (state ctl) = False \<or> imgLoaded (state ctl));
          fade = (fadeIn (state ctl) = True \<and> \<not> imgCached (state ctl))
      in \<lparr>shouldReveal = reveal,
          shouldFadeIn = fade,
          imageStyle =
            [''opacity'' \<mapsto> Num (if reveal then 1 else 0),
             ''transition'' \<mapsto> (if fade then OpacityMs (durationFadeIn cp) else Str ''none'')]
            ++ imgStyle cp,
          imagePlaceholderStyle =
            [''opacity'' \<mapsto> Num (if imgLoaded (state ctl) then 0 else 1)]
            ++ (if fade then delayHideStyle cp else Map.empty)
            ++ imgStyle cp
            ++ placeholderStyle cp,
          mainImage =
            (if isVisible (state ctl)
             then Some \<lparr>img_onLoad = BoundHandleImageLoaded,
                        img_onError = (if onError (props ctl) then Some PropsOnError else None)\<rparr>
             else None),
          noscript = addNoScript ctl\<rparr>)"

text \<open>
  \<open>render\<close> takes the \<open>fluid\<close> branch when the converted prop is there, else the
  \<open>fixed\<close> branch, else returns \<open>null\<close>. Both branches read \<open>image.srcSet\<close> of
  \<open>imageVariants[0]\<close>, which throws on an empty array.
\<close>

definition render :: "controller \<Rightarrow> error + render_result" where
  "render ctl =
     (let cp = convertProps (props ctl)
      in (case fluid cp of
            Some [] \<Rightarrow> Inl TypeError
          | Some (_ # _) \<Rightarrow> Inr (RenderTag (render_tag ctl cp))
          | None \<Rightarrow>
              (case fixed cp of
                 Some [] \<Rightarrow> Inl TypeError
               | Some (_ # _) \<Rightarrow> Inr (RenderTag (render_tag ctl cp))
               | None \<Rightarrow> Inr RenderNull)))"

subsection \<open>Lifecycle methods and event handlers\<close>

text \<open>
  What the DOM reports about the full \<open>img\<close> element: its \<open>complete\<close> flag and its
  \<open>currentSrc\<close> (\<open>None\<close> is \<open>undefined\<close>, as on IE).
\<close>

record img_dom =
  complete :: bool
  currentSrc :: "string option"

text \<open>
  \<open>this.imageRef.current\<close>: the element of the full image when the last render emitted
  one, \<open>null\<close> otherwise.
\<close>

definition imageRef_current :: "controller \<Rightarrow> img_dom \<Rightarrow> img_dom option" where
  "imageRef_current ctl d =
     (case render ctl of
        Inr (RenderTag r) \<Rightarrow> (if mainImage r = None then None else Some d)
      | Inr RenderNull \<Rightarrow> None
      | Inl _ \<Rightarrow> None)"

text \<open>
  The two events of the full \<open>img\<close> element; an error event carries what went wrong.
\<close>

datatype img_event = LoadEvent | ErrorEvent nat

text \<open>Calls of the user's hooks, in order.\<close>

datatype effect =
    CallOnStartLoad cache_value
  | CallOnLoad
  | CallOnError img_event

text \<open>The instance, the image cache and the hook calls made so far.\<close>

type_synonym world = "controller \<times> image_cache \<times> effect list"

definition handleImageLoaded :: "world \<Rightarrow> error + world" where
  "handleImageLoaded w =
     (case w of (ctl, c, fx) \<Rightarrow>
        (case activateCacheForImage c (props ctl) of
           Inl err \<Rightarrow> Inl err
         | Inr c' \<Rightarrow>
             Inr (ctl\<lparr>state := (state ctl)\<lparr>imgLoaded := True\<rparr>\<rparr>,
                  c',
                  (if onLoad (props ctl) then fx @ [CallOnLoad] else fx))))"

definition componentDidMount :: "img_dom \<Rightarrow> world \<Rightarrow> error + world" where
  "componentDidMount d w =
     (case w of (ctl, c, fx) \<Rightarrow>
        (case (if isVisible (state ctl) \<and> onStartLoad (props ctl)
               then (case inImageCache c (props ctl) of
                       Inl err \<Rightarrow> Inl err
                     | Inr v \<Rightarrow> Inr (fx @ [CallOnStartLoad v]))
               else Inr fx) of
           Inl err \<Rightarrow> Inl err
         | Inr fx1 \<Rightarrow>
             (if critical (props ctl)
              then (case imageRef_current ctl d of
                      None \<Rightarrow> Inr (ctl, c, fx1)
                    | Some img \<Rightarrow>
                        (if complete img then handleImageLoaded (ctl, c, fx1)
                         else Inr (ctl, c, fx1)))
              else Inr (ctl, c, fx1))))"

text \<open>The one callback this component registers: the closure made in \<open>handleRef\<close>.\<close>

datatype callback = HandleRefCallback

definition handleRef ::
  "env \<Rightarrow> elem option \<Rightarrow> controller \<times> callback registry \<Rightarrow> controller \<times> callback registry" where
  "handleRef e ref s =
     (case ref of
        None \<Rightarrow> s
      | Some el \<Rightarrow>
          if useIOSupport (fst s)
          then (let r = listenToIntersections e el HandleRefCallback (snd s)
                in ((fst s)\<lparr>cleanUpListeners := Some (snd r)\<rparr>, fst r))
          else s)"

text \<open>
  The body of that closure. The second \<open>setState\<close> runs after the first has been applied
  and rendered; it reads \<open>this.imageRef.current.currentSrc\<close>, which throws when the ref is
  \<open>null\<close>.
\<close>

definition handleRef_callback :: "img_dom \<Rightarrow> world \<Rightarrow> error + world" where
  "handleRef_callback d w =
     (case w of (ctl, c, fx) \<Rightarrow>
        (case inImageCache c (props ctl) of
           Inl err \<Rightarrow> Inl err
         | Inr imageInCache \<Rightarrow>
             (let fx1 = (if \<not> isVisible (state ctl) \<and> onStartLoad (props ctl)
                          then fx @ [CallOnStartLoad imageInCache] else fx);
                  ctl1 = ctl\<lparr>state := (state ctl)\<lparr>isVisible := True\<rparr>\<rparr>
              in (case imageRef_current ctl1 d of
                    None \<Rightarrow> Inl TypeError
                  | Some img \<Rightarrow>
                      Inr (ctl1\<lparr>state := (state ctl1)
                                  \<lparr>imgLoaded := truthy imageInCache,
                                   imgCached := (case currentSrc img of
                                                   None \<Rightarrow> False
                                                 | Some cs \<Rightarrow> cs \<noteq> [])\<rparr>\<rparr>,
                           c, fx1)))))"

definition componentWillUnmount ::
  "controller \<times> callback registry \<Rightarrow> error + callback registry" where
  "componentWillUnmount s =
     (case cleanUpListeners (fst s) of
        None \<Rightarrow> Inr (snd s)
      | Some u \<Rightarrow> call_unsubscribe u (snd s))"

text \<open>
  An event reaches the handler \<open>render\<close> wired to it; with no full image rendered, or
  no handler wired, nothing runs. The user's \<open>onError\<close> receives the event.
\<close>

definition run_handler :: "handler \<Rightarrow> img_event \<Rightarrow> world \<Rightarrow> error + world" where
  "run_handler h ev w =
     (case h of
        BoundHandleImageLoaded \<Rightarrow> handleImageLoaded w
      | PropsOnError \<Rightarrow>
          (case w of (ctl, c, fx) \<Rightarrow>
             Inr (ctl, c, fx @ [CallOnError ev])))"

definition dispatch :: "img_event \<Rightarrow> world \<Rightarrow> error + world" where
  "dispatch ev w =
     (case render (fst w) of
        Inl err \<Rightarrow> Inl err
      | Inr RenderNull \<Rightarrow> Inr w
      | Inr (RenderTag r) \<Rightarrow>
          (case mainImage r of
             None \<Rightarrow> Inr w
           | Some wiring \<Rightarrow>
               (case ev of
                  LoadEvent \<Rightarrow> run_handler (img_onLoad wiring) ev w
                | ErrorEvent n \<Rightarrow>
                    (case img_onError wiring of
                       None \<Rightarrow> Inr w
                     | Some h \<Rightarrow> run_handler h ev w))))"

text \<open>A sequence of events of the full image, handled one after the other.\<close>

fun dispatch_all :: "img_event list \<Rightarrow> world \<Rightarrow> error + world" where
  "dispatch_all [] w = Inr w"
| "dispatch_all (ev # evs) w =
     (case dispatch ev w of
        Inl err \<Rightarrow> Inl err
      | Inr w' \<Rightarrow> dispatch_all evs w')"

definition is_error_event :: "img_event \<Rightarrow> bool" where
  "is_error_event ev = (case ev of ErrorEvent _ \<Rightarrow> True | LoadEvent \<Rightarrow> False)"

text \<open>
  Mounting in a browser, as React does it: the constructor, the first \<open>render\<close>, the ref
  callback of the wrapper element \<open>el\<close> when one was rendered
  (\<open>ref={this.handleRef}\<close>), then \<open>componentDidMount\<close>.
\<close>

definition mount ::
  "env \<Rightarrow> elem \<Rightarrow> img_dom \<Rightarrow> props \<Rightarrow> image_cache \<times> callback registry
     \<Rightarrow> error + (world \<times> callback registry)" where
  "mount e el d p s =
     (case Image_constructor e (fst s) p of
        Inl err \<Rightarrow> Inl err
      | Inr ctl \<Rightarrow>
          (case render ctl of
             Inl err \<Rightarrow> Inl err
           | Inr RenderNull \<Rightarrow>
               (case componentDidMount d (ctl, fst s, []) of
                  Inl err \<Rightarrow> Inl err
                | Inr w \<Rightarrow> Inr (w, snd s))
           | Inr (RenderTag _) \<Rightarrow>
               (let r = handleRef e (Some el) (ctl, snd s)
                in (case componentDidMount d (fst r, fst s, []) of
                      Inl err \<Rightarrow> Inl err
                    | Inr w \<Rightarrow> Inr (w, snd r)))))"

subsection \<open>Invariants of the observer's reports\<close>

text \<open>
  Used in the proofs below. \<open>once\<close>: no element has more than one call, and an element
  with a call is neither in \<open>listeners\<close> nor observed. \<open>removed_first\<close>: every call
  found its element already removed and unobserved.
\<close>

definition once :: "'cb registry \<times> 'cb invocation list \<Rightarrow> bool" where
  "once s =
     (\<forall>el. length (calls_for el (snd s)) \<le> 1
           \<and> (calls_for el (snd s) = []
               \<or> (listeners (fst s) el = None \<and> el \<notin> observed (fst s))))"

definition removed_first :: "'cb invocation list \<Rightarrow> bool" where
  "removed_first calls =
     list_all (\<lambda>i. listeners (snd (snd i)) (fst i) = None \<and> fst i \<notin> observed (snd (snd i))) calls"

subsection \<open>Concrete inputs\<close>

text \<open>Four variants: two with a media condition, one without, one with an empty one.\<close>

definition v1 :: variant where
  "v1 = \<lparr>src = ''a.jpg'', media = None\<rparr>"

definition v2 :: variant where
  "v2 = \<lparr>src = ''b.jpg'', media = Some ''(min-width: 768px)''\<rparr>"

definition v3 :: variant where
  "v3 = \<lparr>src = ''c.jpg'', media = Some ''''\<rparr>"

definition v4 :: variant where
  "v4 = \<lparr>src = ''d.jpg'', media = Some ''print''\<rparr>"

text \<open>Props with the defaults of \<open>Image.defaultProps\<close> and no variant at all.\<close>

definition default_props :: props where
  "default_props =
     \<lparr>fluid = None, fixed = None, sizes = None, resolutions = None,
      critical = False, fadeInProp = True, loading = Lazy, durationFadeIn = 500,
      imgStyle = Map.empty, placeholderStyle = Map.empty,
      onStartLoad = False, onLoad = False, onError = False\<rparr>"

text \<open>One fluid image; one fluid image whose source is the relative URL \<open>constructor\<close>.\<close>

definition fluid_props :: props where
  "fluid_props = default_props\<lparr>fluid := Some [v1]\<rparr>"

definition constructor_props :: props where
  "constructor_props = default_props\<lparr>fluid := Some [\<lparr>src = ''constructor'', media = None\<rparr>]\<rparr>"

text \<open>
  A browser with \<open>IntersectionObserver\<close> and no native lazy loading, a browser with
  neither, and a server (no \<open>window\<close>).
\<close>

definition io_browser :: env where
  "io_browser = \<lparr>window_defined = True, window_IntersectionObserver = True,
                  hasNativeLazyLoadSupport = False\<rparr>"

definition plain_browser :: env where
  "plain_browser = \<lparr>window_defined = True, window_IntersectionObserver = False,
                     hasNativeLazyLoadSupport = False\<rparr>"

definition server :: env where
  "server = \<lparr>window_defined = False, window_IntersectionObserver = False,
              hasNativeLazyLoadSupport = False\<rparr>"

text \<open>
  One fluid image requested with \<open>loading="eager"\<close>, and the same with the deprecated
  \<open>critical\<close> flag; one with an \<open>onError\<close> hook.
\<close>

definition eager_props :: props where
  "eager_props = fluid_props\<lparr>loading := Eager\<rparr>"

definition critical_props :: props where
  "critical_props = fluid_props\<lparr>critical := True\<rparr>"

definition hooked_props :: props where
  "hooked_props = fluid_props\<lparr>onError := True, onLoad := True\<rparr>"

text \<open>An \<open>img\<close> element whose resource is already complete.\<close>

definition complete_img :: img_dom where
  "complete_img = \<lparr>complete = True, currentSrc = Some ''a.jpg''\<rparr>"

text \<open>
  The registry after one subscription for element 7, and three reports of the observer:
  element 7 not yet intersecting; intersecting, twice in one report; intersecting again by
  ratio alone.
\<close>

definition subscribed :: "callback registry" where
  "subscribed = fst (listenToIntersections io_browser 7 HandleRefCallback empty_registry)"

definition three_reports :: "entry list list" where
  "three_reports =
     [[\<lparr>target = 7, isIntersecting = False, intersectionRatio = 0\<rparr>],
      [\<lparr>target = 7, isIntersecting = True, intersectionRatio = 1\<rparr>,
       \<lparr>target = 7, isIntersecting = True, intersectionRatio = 1\<rparr>],
      [\<lparr>target = 7, isIntersecting = False, intersectionRatio = 1 / 2\<rparr>]]"

text \<open>
  Instances as the constructor makes them in a browser without \<open>IntersectionObserver\<close>:
  one with the hooks, and one whose caller overrides the placeholder's style and turns
  fading off, before and after its image has loaded.
\<close>

definition hooked_ctl :: controller where
  "hooked_ctl = new_controller plain_browser hooked_props False"

definition styled_props :: props where
  "styled_props =
     fluid_props\<lparr>fadeInProp := False,
                 placeholderStyle := [''opacity'' \<mapsto> Num 1, ''transitionDelay'' \<mapsto> Ms 0]\<rparr>"

definition styled_ctl :: controller where
  "styled_ctl = new_controller plain_browser styled_props False"

definition loaded_styled_ctl :: controller where
  "loaded_styled_ctl = styled_ctl\<lparr>state := (state styled_ctl)\<lparr>imgLoaded := True\<rparr>\<rparr>"

definition plain_ctl :: controller where
  "plain_ctl = new_controller plain_browser fluid_props False"

section \<open>Properties\<close>

lemmas input_defs = default_props_def fluid_props_def constructor_props_def
  io_browser_def plain_browser_def server_def v1_def v2_def v3_def v4_def
  eager_props_def critical_props_def hooked_props_def complete_img_def

lemmas instance_defs = subscribed_def three_reports_def hooked_ctl_def styled_props_def
  styled_ctl_def loaded_styled_ctl_def plain_ctl_def

lemmas registry_defs = io_reports_def io_callback_def handle_entry_def calls_for_def
  listenToIntersections_def getIO_def empty_registry_def Let_def

lemmas cache_defs = inImageCache_def activateCacheForImage_def getImageSrcKey_def convertProps_def
  first_variant_def groupByMedia_def push_variant_def media_truthy_def cache_get_def cache_set_def
  truthy_def empty_cache_def object_prototype_keys_def

lemmas mount_defs = mount_def Image_constructor_def new_controller_def render_def render_tag_def
  handleRef_def componentDidMount_def imageRef_current_def handleImageLoaded_def
  isBrowser_def hasIOSupport_def listenToIntersections_def getIO_def empty_registry_def

subsection \<open>\<open>groupByMedia\<close> is a stable partition\<close>

lemma fold_push_variant:
  "fold push_variant vs acc =
     (fst acc @ filter media_truthy vs, snd acc @ filter (\<lambda>v. \<not> media_truthy v) vs)"
  by (induction vs arbitrary: acc) (simp_all add: push_variant_def)

lemma groupByMedia_filter:
  "groupByMedia vs = filter media_truthy vs @ filter (\<lambda>v. \<not> media_truthy v) vs"
  by (simp add: groupByMedia_def fold_push_variant)

text \<open>
  C10. \<open>groupByMedia\<close> returns a permutation of its input; the variants with a media
  condition keep their relative order, so do the variants without one, and no variant
  without a media condition stands before one with a media condition: whenever the
  variant at a later position has one, so has the variant at every earlier position.
\<close>

theorem groupByMedia_stable_partition:
  "mset (groupByMedia vs) = mset vs
   \<and> filter media_truthy (groupByMedia vs) = filter media_truthy vs
   \<and> filter (\<lambda>v. \<not> media_truthy v) (groupByMedia vs) = filter (\<lambda>v. \<not> media_truthy v) vs
   \<and> (\<forall>i j. i < j \<and> j < length (groupByMedia vs) \<and> media_truthy (groupByMedia vs ! j)
          \<longrightarrow> media_truthy (groupByMedia vs ! i))"
proof (intro conjI allI impI)
  show "mset (groupByMedia vs) = mset vs"
    by (simp add: groupByMedia_filter)
next
  show "filter media_truthy (groupByMedia vs) = filter media_truthy vs"
    by (simp add: groupByMedia_filter)
next
  show "filter (\<lambda>v. \<not> media_truthy v) (groupByMedia vs) = filter (\<lambda>v. \<not> media_truthy v) vs"
    by (simp add: groupByMedia_filter)
next
  fix i j
  assume h: "i < j \<and> j < length (groupByMedia vs) \<and> media_truthy (groupByMedia vs ! j)"
  let ?w = "filter media_truthy vs"
  let ?o = "filter (\<lambda>v. \<not> media_truthy v) vs"
  have g: "groupByMedia vs = ?w @ ?o" by (rule groupByMedia_filter)
  have "j < length ?w"
  proof (rule ccontr)
    assume "\<not> j < length ?w"
    then have ge: "length ?w \<le> j" by simp
    from h have "j < length (?w @ ?o)" by (simp only: g)
    then have "j - length ?w < length ?o" using ge by (simp only: length_append)
    then have "(?o ! (j - length ?w)) \<in> set ?o" by (rule nth_mem)
    then have "\<not> media_truthy (?o ! (j - length ?w))" by simp
    moreover have "groupByMedia vs ! j = ?o ! (j - length ?w)"
      using ge by (simp add: g nth_append)
    ultimately show False using h by simp
  qed
  with h have "i < length ?w" by simp
  then have "groupByMedia vs ! i = ?w ! i" by (simp add: g nth_append)
  moreover have "?w ! i \<in> set ?w" using \<open>i < length ?w\<close> by (rule nth_mem)
  ultimately show "media_truthy (groupByMedia vs ! i)" by simp
qed

theorem groupByMedia_stable_partition_witness:
  "groupByMedia [v1, v2, v3, v4] = [v2, v4, v1, v3]
   \<and> mset (groupByMedia [v1, v2, v3, v4]) = mset [v1, v2, v3, v4]
   \<and> media_truthy (groupByMedia [v1, v2, v3, v4] ! 1)
   \<and> media_truthy (groupByMedia [v1, v2, v3, v4] ! 0)"
  using groupByMedia_stable_partition [of "[v1, v2, v3, v4]"]
  by (simp add: groupByMedia_def push_variant_def media_truthy_def v1_def v2_def v3_def v4_def)

subsection \<open>The image cache\<close>

text \<open>
  For a key that names no member of \<open>Object.prototype\<close>, the cache answers \<open>true\<close>
  exactly when the key was marked before, and \<open>false\<close> otherwise.
\<close>

lemma cache_marks:
  "k \<notin> set object_prototype_keys \<Longrightarrow>
     cache_get (fold (\<lambda>m c. cache_set c m) ks c0) k =
       (if k \<in> set ks \<or> k \<in> c0 then JsTrue else JsFalse)"
  by (induction ks arbitrary: c0) (auto simp: cache_get_def cache_set_def object_prototype_keys_def)

text \<open>
  C5. The claim says that the fresh cache answers \<open>false\<close> for every identity. For an
  identity that names a member of \<open>Object.prototype\<close>, such as \<open>constructor\<close>, the
  lookup \<open>imageCache[src]\<close> on the fresh cache finds the inherited member, and
  \<open>inImageCache\<close> returns that truthy value although nothing was marked.
\<close>

theorem fresh_cache_reports_inherited_key:
  assumes "getImageSrcKey (convertProps p) = Inr k" and "k \<in> set object_prototype_keys"
  shows "inImageCache empty_cache p = Inr (JsInherited k) \<and> truthy (JsInherited k) = True"
proof -
  from assms(2) have "cache_get empty_cache k = JsInherited k"
    by (simp add: cache_get_def empty_cache_def)
  with assms(1) have "inImageCache empty_cache p = Inr (JsInherited k)"
    by (simp add: inImageCache_def)
  then show ?thesis by (simp add: truthy_def)
qed

theorem fresh_cache_reports_inherited_key_witness:
  "getImageSrcKey (convertProps constructor_props) = Inr ''constructor''
   \<and> ''constructor'' \<in> set object_prototype_keys
   \<and> inImageCache empty_cache constructor_props = Inr (JsInherited ''constructor'')
   \<and> truthy (JsInherited ''constructor'') = True"
proof -
  have k: "getImageSrcKey (convertProps constructor_props) = Inr ''constructor''"
    by (simp add: cache_defs input_defs)
  have m: "''constructor'' \<in> set object_prototype_keys"
    by (simp add: object_prototype_keys_def)
  from fresh_cache_reports_inherited_key [OF k m] k m show ?thesis by simp
qed

subsection \<open>The constructor\<close>

lemma getImageSrcKey_no_variants:
  "fluid p = None \<Longrightarrow> fixed p = None \<Longrightarrow> sizes p = None \<Longrightarrow> resolutions p = None \<Longrightarrow>
     getImageSrcKey (convertProps p) = Inl TypeError"
  by (simp add: getImageSrcKey_def convertProps_def first_variant_def Let_def)

text \<open>
  C6. The claim says that construction succeeds when no variant list is supplied. In a
  browser the constructor calls \<open>inImageCache\<close>, whose \<open>getImageSrcKey\<close> reads
  \<open>.src\<close> of \<open>undefined\<close>: with none of \<open>fluid\<close>, \<open>fixed\<close>, \<open>sizes\<close>,
  \<open>resolutions\<close> the constructor throws a \<open>TypeError\<close>.
\<close>

theorem constructor_throws_without_variants:
  assumes "isBrowser e"
    and "fluid p = None" and "fixed p = None" and "sizes p = None" and "resolutions p = None"
  shows "Image_constructor e c p = Inl TypeError"
  using assms by (simp add: Image_constructor_def inImageCache_def getImageSrcKey_no_variants)

theorem constructor_throws_without_variants_witness:
  "isBrowser io_browser
   \<and> fluid default_props = None \<and> fixed default_props = None
   \<and> sizes default_props = None \<and> resolutions default_props = None
   \<and> Image_constructor io_browser empty_cache default_props = Inl TypeError"
  using constructor_throws_without_variants [of io_browser default_props empty_cache]
  by (simp add: isBrowser_def input_defs)

text \<open>
  On a server the constructor does not look at the cache, and \<open>render\<close> returns
  \<open>null\<close> for such props.
\<close>

lemma no_variants_on_server:
  assumes "\<not> isBrowser e"
    and "fluid p = None" and "fixed p = None" and "sizes p = None" and "resolutions p = None"
  shows "\<exists>ctl. Image_constructor e c p = Inr ctl \<and> render ctl = Inr RenderNull"
  using assms
  by (simp add: Image_constructor_def new_controller_def render_def convertProps_def Let_def)

lemma handleRef_without_io:
  "\<not> useIOSupport ctl \<Longrightarrow> handleRef e ref (ctl, reg) = (ctl, reg)"
  by (simp add: handleRef_def split: option.splits)

text \<open>
  C1. In a browser, when \<open>inImageCache\<close> reports the identity of the props as seen, the
  constructor returns an instance with \<open>isVisible = true\<close> and \<open>fadeIn = false\<close>,
  whatever the capabilities and the other props are; \<open>useIOSupport\<close> is false, so
  \<open>handleRef\<close> subscribes to nothing: it leaves instance and registry as they are.
\<close>

theorem seen_image_starts_visible_without_fade:
  assumes "isBrowser e" and "inImageCache c p = Inr v" and "truthy v"
  shows "\<exists>ctl. Image_constructor e c p = Inr ctl
           \<and> isVisible (state ctl) = True
           \<and> fadeIn (state ctl) = False
           \<and> useIOSupport ctl = False
           \<and> (\<forall>ref reg. handleRef e ref (ctl, reg) = (ctl, reg))"
  using assms
  by (simp add: Image_constructor_def new_controller_def handleRef_without_io)

theorem seen_image_starts_visible_without_fade_witness:
  "isBrowser io_browser
   \<and> activateCacheForImage empty_cache fluid_props = Inr {''a.jpg''}
   \<and> inImageCache {''a.jpg''} fluid_props = Inr JsTrue
   \<and> truthy JsTrue
   \<and> (\<exists>ctl. Image_constructor io_browser {''a.jpg''} fluid_props = Inr ctl
           \<and> isVisible (state ctl) = True
           \<and> fadeIn (state ctl) = False
           \<and> useIOSupport ctl = False
           \<and> (\<forall>ref reg. handleRef io_browser ref (ctl, reg) = (ctl, reg)))"
proof -
  have b: "isBrowser io_browser" by (simp add: isBrowser_def input_defs)
  have a: "activateCacheForImage empty_cache fluid_props = Inr {''a.jpg''}"
    by (simp add: cache_defs input_defs)
  have i: "inImageCache {''a.jpg''} fluid_props = Inr JsTrue"
    by (simp add: cache_defs input_defs)
  have t: "truthy JsTrue" by (simp add: truthy_def)
  from seen_image_starts_visible_without_fade [OF b i t] a b i t show ?thesis by simp
qed

text \<open>Marking an identity makes \<open>inImageCache\<close> report it from then on.\<close>

lemma marked_is_seen:
  assumes "activateCacheForImage c q = Inr c'"
    and "getImageSrcKey (convertProps p) = getImageSrcKey (convertProps q)"
  shows "\<exists>v. inImageCache c' p = Inr v \<and> truthy v"
  using assms
  by (auto simp: activateCacheForImage_def inImageCache_def cache_set_def cache_get_def
      truthy_def object_prototype_keys_def split: sum.splits if_splits)

lemma listenToIntersections_registers:
  "io reg \<or> (window_defined e \<and> window_IntersectionObserver e) \<Longrightarrow>
     listenToIntersections e el cb reg =
       (reg\<lparr>io := True, observed := insert el (observed reg),
            listeners := (listeners reg)(el \<mapsto> cb)\<rparr>,
        Unsubscribe True el)"
  by (auto simp: listenToIntersections_def getIO_def Let_def)

text \<open>
  For an identity that was never marked and names no member of \<open>Object.prototype\<close>:
  when \<open>critical\<close> is false, \<open>loading\<close> is not \<open>eager\<close>, there is no native lazy
  loading and \<open>IntersectionObserver\<close> is there, the constructor returns an instance with
  \<open>isVisible = false\<close> and \<open>imgLoaded = false\<close>, and \<open>handleRef\<close> on the wrapper
  element registers it: an observer exists, the element is observed, its callback is in
  \<open>listeners\<close>, and the instance keeps the unsubscribe closure.
\<close>

lemma unseen_image_starts_pending_and_registers:
  assumes "getImageSrcKey (convertProps p) = Inr k"
    and "k \<notin> c" and "k \<notin> set object_prototype_keys"
    and "\<not> critical p" and "loading p \<noteq> Eager"
    and "\<not> hasNativeLazyLoadSupport e" and "hasIOSupport e"
  shows "\<exists>ctl. Image_constructor e c p = Inr ctl
           \<and> isVisible (state ctl) = False
           \<and> imgLoaded (state ctl) = False
           \<and> useIOSupport ctl = True
           \<and> (\<forall>el reg. \<exists>ctl' reg'. handleRef e (Some el) (ctl, reg) = (ctl', reg')
                 \<and> io reg'
                 \<and> listeners reg' el = Some HandleRefCallback
                 \<and> el \<in> observed reg'
                 \<and> cleanUpListeners ctl' = Some (Unsubscribe True el)
                 \<and> state ctl' = state ctl)"
proof -
  from assms(1-3) have i: "inImageCache c p = Inr JsFalse"
    by (simp add: inImageCache_def cache_get_def)
  show ?thesis
    using i assms(4-7)
    by (simp add: Image_constructor_def new_controller_def hasIOSupport_def isBrowser_def
        handleRef_def listenToIntersections_registers truthy_def)
qed

lemma unseen_fluid_image_starts_pending:
  "\<exists>ctl. Image_constructor io_browser empty_cache fluid_props = Inr ctl
      \<and> isVisible (state ctl) = False
      \<and> useIOSupport ctl = True
      \<and> listeners (snd (handleRef io_browser (Some 7) (ctl, empty_registry))) 7
           = Some HandleRefCallback"
  by (simp add: mount_defs cache_defs input_defs Let_def)

text \<open>
  C2. The claim says that an instance whose identity is not in the cache, with
  \<open>critical\<close> false, \<open>loading\<close> not \<open>eager\<close>, no native lazy loading and
  \<open>IntersectionObserver\<close> there, starts with \<open>isVisible = false\<close> and registers with
  the observer. For an identity that was never marked but names a member of
  \<open>Object.prototype\<close>, such as \<open>constructor\<close>, the constructor in a browser finds the
  inherited member in \<open>imageCache\<close> and takes the image for seen: the instance starts
  with \<open>isVisible = true\<close> and \<open>useIOSupport\<close> false, and \<open>handleRef\<close> registers
  nothing, whatever the capabilities and the other props are.
\<close>

theorem unmarked_inherited_identity_starts_visible:
  assumes "getImageSrcKey (convertProps p) = Inr k"
    and "k \<notin> c" and "k \<in> set object_prototype_keys"
    and "isBrowser e"
  shows "\<exists>ctl. Image_constructor e c p = Inr ctl
           \<and> isVisible (state ctl) = True
           \<and> useIOSupport ctl = False
           \<and> (\<forall>ref reg. handleRef e ref (ctl, reg) = (ctl, reg))"
proof -
  from assms(1-3) have i: "inImageCache c p = Inr (JsInherited k)"
    by (simp add: inImageCache_def cache_get_def)
  have u: "\<not> useIOSupport (new_controller e p True)"
    by (simp add: new_controller_def)
  have v: "isVisible (state (new_controller e p True))"
    using assms(4) by (simp add: new_controller_def)
  from i assms(4) have k: "Image_constructor e c p = Inr (new_controller e p True)"
    by (simp add: Image_constructor_def truthy_def)
  from k u v handleRef_without_io [OF u] show ?thesis by simp
qed

theorem unmarked_inherited_identity_starts_visible_witness:
  "getImageSrcKey (convertProps constructor_props) = Inr ''constructor''
   \<and> ''constructor'' \<notin> empty_cache
   \<and> ''constructor'' \<in> set object_prototype_keys
   \<and> isBrowser io_browser
   \<and> critical constructor_props = False
   \<and> loading constructor_props = Lazy
   \<and> hasNativeLazyLoadSupport io_browser = False
   \<and> hasIOSupport io_browser
   \<and> (\<exists>ctl. Image_constructor io_browser empty_cache constructor_props = Inr ctl
           \<and> isVisible (state ctl) = True
           \<and> useIOSupport ctl = False
           \<and> (\<forall>ref reg. handleRef io_browser ref (ctl, reg) = (ctl, reg)))"
proof -
  have k: "getImageSrcKey (convertProps constructor_props) = Inr ''constructor''"
    by (simp add: cache_defs input_defs)
  have n: "''constructor'' \<notin> empty_cache" by (simp add: empty_cache_def)
  have m: "''constructor'' \<in> set object_prototype_keys"
    by (simp add: object_prototype_keys_def)
  have b: "isBrowser io_browser" by (simp add: isBrowser_def input_defs)
  have o: "critical constructor_props = False" "loading constructor_props = Lazy"
    "hasNativeLazyLoadSupport io_browser = False" "hasIOSupport io_browser"
    by (simp_all add: hasIOSupport_def isBrowser_def input_defs)
  from unmarked_inherited_identity_starts_visible [OF k n m b] k n m b o
  show ?thesis by simp
qed

subsection \<open>Mounting\<close>

lemma componentDidMount_not_critical:
  "\<not> critical (props ctl) \<Longrightarrow> componentDidMount d (ctl, c, fx) = Inr (ctl', c', fx') \<Longrightarrow>
     ctl' = ctl \<and> c' = c \<and> CallOnLoad \<notin> set fx' - set fx"
  by (auto simp: componentDidMount_def split: if_splits sum.splits)

lemma constructor_props:
  "Image_constructor e c p = Inr ctl \<Longrightarrow> props ctl = p \<and> imgLoaded (state ctl) = False
     \<and> isVisible (state ctl) = (critical p \<or> loading p = Eager \<or>
          (isBrowser e \<and> (hasNativeLazyLoadSupport e \<or> \<not> useIOSupport ctl)))"
  by (auto simp: Image_constructor_def new_controller_def split: if_splits sum.splits)

lemma handleRef_state:
  "props (fst (handleRef e ref s)) = props (fst s) \<and> state (fst (handleRef e ref s)) = state (fst s)"
  by (simp add: handleRef_def Let_def split: option.splits)

text \<open>
  C9. The claim says that the mount check also fires for a load requested with
  \<open>loading="eager"\<close>. \<open>componentDidMount\<close> tests \<open>this.props.critical\<close> alone: for
  props with \<open>loading = eager\<close> and no \<open>critical\<close> flag the instance is visible from
  construction, but mounting never sets \<open>imgLoaded\<close>, marks nothing in the cache and does
  not call \<open>onLoad\<close>, whatever the \<open>complete\<close> flag of the element is.
\<close>

theorem eager_without_critical_skips_mount_check:
  assumes "\<not> critical p" and "loading p = Eager"
    and "mount e el d p (c, reg) = Inr ((ctl, c', fx), reg')"
  shows "isVisible (state ctl) = True \<and> imgLoaded (state ctl) = False \<and> c' = c \<and> CallOnLoad \<notin> set fx"
proof -
  from assms(3) obtain ctl0 where c0: "Image_constructor e c p = Inr ctl0"
    by (auto simp: mount_def split: sum.splits)
  from constructor_props [OF c0] assms(1,2)
  have p0: "props ctl0 = p" "imgLoaded (state ctl0) = False" "isVisible (state ctl0) = True"
    by simp_all
  have "\<exists>ctl1. state ctl1 = state ctl0 \<and> props ctl1 = props ctl0
           \<and> componentDidMount d (ctl1, c, []) = Inr (ctl, c', fx)"
  proof (cases "render ctl0")
    case (Inl err)
    with assms(3) c0 show ?thesis by (simp add: mount_def)
  next
    case (Inr rr)
    show ?thesis
    proof (cases rr)
      case RenderNull
      with Inr assms(3) c0 have "componentDidMount d (ctl0, c, []) = Inr (ctl, c', fx)"
        by (simp add: mount_def split: sum.splits)
      then show ?thesis by blast
    next
      case (RenderTag r)
      let ?ctl1 = "fst (handleRef e (Some el) (ctl0, reg))"
      from RenderTag Inr assms(3) c0 have "componentDidMount d (?ctl1, c, []) = Inr (ctl, c', fx)"
        by (simp add: mount_def Let_def split: sum.splits)
      moreover have "state ?ctl1 = state ctl0 \<and> props ?ctl1 = props ctl0"
        using handleRef_state [of e "Some el" "(ctl0, reg)"] by simp
      ultimately show ?thesis by blast
    qed
  qed
  then obtain ctl1 where
    h: "state ctl1 = state ctl0" "props ctl1 = props ctl0"
       "componentDidMount d (ctl1, c, []) = Inr (ctl, c', fx)"
    by blast
  from componentDidMount_not_critical [OF _ h(3)] h(2) p0(1) assms(1)
  have "ctl = ctl1 \<and> c' = c \<and> CallOnLoad \<notin> set fx" by simp
  with h(1) p0 show ?thesis by simp
qed

theorem eager_without_critical_skips_mount_check_witness:
  "critical eager_props = False
   \<and> loading eager_props = Eager
   \<and> complete complete_img = True
   \<and> (\<exists>ctl fx reg'.
         mount io_browser 1 complete_img eager_props (empty_cache, empty_registry)
           = Inr ((ctl, empty_cache, fx), reg')
         \<and> isVisible (state ctl) = True \<and> imgLoaded (state ctl) = False)"
proof -
  have c: "\<not> critical eager_props" and l: "loading eager_props = Eager"
    by (simp_all add: input_defs)
  have "\<exists>ctl fx reg'.
          mount io_browser 1 complete_img eager_props (empty_cache, empty_registry)
            = Inr ((ctl, empty_cache, fx), reg')"
    by (simp add: mount_defs cache_defs input_defs)
  then obtain ctl fx reg' where
    m: "mount io_browser 1 complete_img eager_props (empty_cache, empty_registry)
          = Inr ((ctl, empty_cache, fx), reg')"
    by blast
  from eager_without_critical_skips_mount_check [OF c l m]
  have "isVisible (state ctl) = True \<and> imgLoaded (state ctl) = False" by simp
  with m c l show ?thesis by (simp add: complete_img_def)
qed

text \<open>
  With the \<open>critical\<close> flag the check does its work: when the element is complete at
  mount, mounting marks the cache and sets \<open>imgLoaded\<close>.
\<close>

lemma critical_mount_check:
  assumes "critical p" and "complete d"
    and "mount e el d p (c, reg) = Inr ((ctl, c', fx), reg')"
    and "Image_constructor e c p = Inr ctl0" and "render ctl0 = Inr (RenderTag r)"
  shows "imgLoaded (state ctl) = True \<and> activateCacheForImage c p = Inr c'"
proof -
  from constructor_props [OF assms(4)] assms(1)
  have p0: "props ctl0 = p" "isVisible (state ctl0) = True" by simp_all
  let ?ctl1 = "fst (handleRef e (Some el) (ctl0, reg))"
  have s1: "state ?ctl1 = state ctl0" "props ?ctl1 = props ctl0"
    using handleRef_state [of e "Some el" "(ctl0, reg)"] by simp_all
  have r1: "render ?ctl1 = Inr (RenderTag (render_tag ?ctl1 (convertProps p)))"
    using assms(5) s1 p0 by (auto simp: render_def Let_def split: option.splits list.splits)
  have m1: "mainImage (render_tag ?ctl1 (convertProps p)) \<noteq> None"
    using s1 p0 by (simp add: render_tag_def Let_def)
  have i1: "imageRef_current ?ctl1 d = Some d"
    using r1 m1 by (simp add: imageRef_current_def)
  from assms(3,4,5) have cdm: "componentDidMount d (?ctl1, c, []) = Inr (ctl, c', fx)"
    by (simp add: mount_def Let_def split: sum.splits)
  then show ?thesis
    using i1 assms(1,2) s1 p0
    by (auto simp: componentDidMount_def handleImageLoaded_def split: if_splits sum.splits)
qed

text \<open>
  At the concrete input, with the \<open>critical\<close> flag in place of \<open>loading = eager\<close>:
  the check finds the element complete, marks the cache and sets \<open>imgLoaded\<close>.
\<close>

lemma critical_mount_check_loads:
  "\<exists>ctl fx reg'.
     mount io_browser 1 complete_img critical_props (empty_cache, empty_registry)
       = Inr ((ctl, {''a.jpg''}, fx), reg')
     \<and> isVisible (state ctl) = True \<and> imgLoaded (state ctl) = True"
  by (simp add: mount_defs cache_defs input_defs)

subsection \<open>Load errors\<close>

lemma dispatch_error_event:
  assumes "render ctl = Inr (RenderTag r)" and "mainImage r = Some wiring"
  shows "dispatch (ErrorEvent n) (ctl, c, fx) =
           Inr (ctl, c, if onError (props ctl) then fx @ [CallOnError (ErrorEvent n)] else fx)"
proof -
  from assms have w: "img_onError wiring = (if onError (props ctl) then Some PropsOnError else None)"
    by (auto simp: render_def render_tag_def Let_def split: option.splits list.splits if_splits)
  show ?thesis
    using assms w by (simp add: dispatch_def run_handler_def)
qed

lemma dispatch_load_event:
  assumes "render ctl = Inr (RenderTag r)" and "mainImage r = Some wiring"
  shows "dispatch LoadEvent (ctl, c, fx) = handleImageLoaded (ctl, c, fx)"
proof -
  from assms have "img_onLoad wiring = BoundHandleImageLoaded"
    by (auto simp: render_def render_tag_def Let_def split: option.splits list.splits if_splits)
  with assms show ?thesis by (simp add: dispatch_def run_handler_def)
qed

text \<open>
  C8. While the full image is rendered, any sequence of error events of its element
  leaves the instance as it is (so \<open>imgLoaded\<close> keeps its value, \<open>false\<close> for an image
  that has not loaded) and leaves the image cache as it is; each event is passed to the
  \<open>onError\<close> hook of the props, when there is one, and nothing else is called.
\<close>

theorem load_errors_leave_controller_and_cache:
  assumes "list_all is_error_event evs"
    and "render ctl = Inr (RenderTag r)" and "mainImage r = Some wiring"
  shows "dispatch_all evs (ctl, c, fx) =
           Inr (ctl, c, if onError (props ctl) then fx @ map CallOnError evs else fx)"
  using assms(1)
proof (induction evs arbitrary: fx)
  case Nil
  then show ?case by simp
next
  case (Cons ev evs)
  then obtain n where ev: "ev = ErrorEvent n"
    by (cases ev) (simp_all add: is_error_event_def)
  from Cons have rest: "list_all is_error_event evs" by simp
  show ?case
    using Cons.IH [OF rest] dispatch_error_event [OF assms(2,3)]
    by (simp add: ev)
qed

theorem load_errors_leave_controller_and_cache_witness:
  "list_all is_error_event [ErrorEvent 404, ErrorEvent 500]
   \<and> Image_constructor plain_browser empty_cache hooked_props = Inr hooked_ctl
   \<and> render hooked_ctl = Inr (RenderTag (render_tag hooked_ctl (convertProps hooked_props)))
   \<and> mainImage (render_tag hooked_ctl (convertProps hooked_props))
        = Some \<lparr>img_onLoad = BoundHandleImageLoaded, img_onError = Some PropsOnError\<rparr>
   \<and> imgLoaded (state hooked_ctl) = False
   \<and> dispatch_all [ErrorEvent 404, ErrorEvent 500] (hooked_ctl, empty_cache, [])
        = Inr (hooked_ctl, empty_cache, [CallOnError (ErrorEvent 404), CallOnError (ErrorEvent 500)])
   \<and> inImageCache empty_cache hooked_props = Inr JsFalse"
proof -
  have e: "list_all is_error_event [ErrorEvent 404, ErrorEvent 500]"
    by (simp add: is_error_event_def)
  have k: "Image_constructor plain_browser empty_cache hooked_props = Inr hooked_ctl"
    by (simp add: mount_defs cache_defs input_defs instance_defs)
  have r: "render hooked_ctl = Inr (RenderTag (render_tag hooked_ctl (convertProps hooked_props)))"
    by (simp add: mount_defs cache_defs input_defs instance_defs)
  have m: "mainImage (render_tag hooked_ctl (convertProps hooked_props))
             = Some \<lparr>img_onLoad = BoundHandleImageLoaded, img_onError = Some PropsOnError\<rparr>"
    by (simp add: mount_defs cache_defs input_defs instance_defs)
  have l: "imgLoaded (state hooked_ctl) = False" "onError (props hooked_ctl) = True"
    by (simp_all add: mount_defs input_defs instance_defs)
  have i: "inImageCache empty_cache hooked_props = Inr JsFalse"
    by (simp add: cache_defs input_defs)
  from load_errors_leave_controller_and_cache [OF e r m, of empty_cache "[]"] e k r m l i
  show ?thesis by simp
qed

text \<open>The load event of the same instance does load, marks the cache and calls \<open>onLoad\<close>.\<close>

lemma load_event_loads:
  "\<exists>ctl. dispatch LoadEvent (hooked_ctl, empty_cache, []) = Inr (ctl, {''a.jpg''}, [CallOnLoad])
         \<and> imgLoaded (state ctl) = True"
  by (simp add: dispatch_def run_handler_def mount_defs cache_defs input_defs instance_defs)

subsection \<open>The intersection registry\<close>

lemma handle_entry_once: "once s \<Longrightarrow> once (handle_entry en s)"
  unfolding once_def handle_entry_def calls_for_def
  by (auto simp: Let_def split: option.splits)

lemma handle_entry_removed_first:
  "removed_first (snd s) \<Longrightarrow> removed_first (snd (handle_entry en s))"
  unfolding removed_first_def handle_entry_def
  by (auto simp: Let_def split: option.splits)

lemma io_callback_once: "once s \<Longrightarrow> once (io_callback entries s)"
  unfolding io_callback_def
  by (induction entries arbitrary: s) (simp_all add: handle_entry_once)

lemma io_callback_removed_first:
  "removed_first (snd s) \<Longrightarrow> removed_first (snd (io_callback entries s))"
  unfolding io_callback_def
  by (induction entries arbitrary: s) (simp_all add: handle_entry_removed_first)

lemma io_reports_once: "once s \<Longrightarrow> once (io_reports reports s)"
  unfolding io_reports_def
  by (induction reports arbitrary: s) (simp_all add: io_callback_once)

lemma io_reports_removed_first:
  "removed_first (snd s) \<Longrightarrow> removed_first (snd (io_reports reports s))"
  unfolding io_reports_def
  by (induction reports arbitrary: s) (simp_all add: io_callback_removed_first)

lemma once_initial: "once (reg, [])"
  by (simp add: once_def calls_for_def)

text \<open>
  C4. Over any sequence of reports of the observer, starting from any registry, the
  callback of an element is called at most once, however often the element is reported
  as intersecting; and every call finds the registry with the element's entry already
  deleted from \<open>listeners\<close> and the element already unobserved.
\<close>

theorem visibility_callback_at_most_once:
  "length (calls_for el (snd (io_reports reports (reg, [])))) \<le> 1
   \<and> (\<forall>i \<in> set (snd (io_reports reports (reg, []))).
         listeners (snd (snd i)) (fst i) = None \<and> fst i \<notin> observed (snd (snd i)))"
proof
  from io_reports_once [OF once_initial, of reports reg]
  show "length (calls_for el (snd (io_reports reports (reg, [])))) \<le> 1"
    by (simp add: once_def)
next
  have "removed_first (snd (io_reports reports (reg, [])))"
    by (rule io_reports_removed_first) (simp add: removed_first_def)
  then show "\<forall>i \<in> set (snd (io_reports reports (reg, []))).
         listeners (snd (snd i)) (fst i) = None \<and> fst i \<notin> observed (snd (snd i))"
    by (simp add: removed_first_def list_all_iff)
qed

lemma three_reports_run:
  "io_reports three_reports (subscribed, []) =
     (\<lparr>io = True, observed = {}, listeners = Map.empty\<rparr>,
      [(7, HandleRefCallback, \<lparr>io = True, observed = {}, listeners = Map.empty\<rparr>)])"
  by (simp add: registry_defs input_defs instance_defs)

theorem visibility_callback_at_most_once_witness:
  "listeners subscribed 7 = Some HandleRefCallback
   \<and> snd (io_reports three_reports (subscribed, []))
        = [(7, HandleRefCallback, \<lparr>io = True, observed = {}, listeners = Map.empty\<rparr>)]
   \<and> length (calls_for 7 (snd (io_reports three_reports (subscribed, [])))) = 1"
  using visibility_callback_at_most_once [of 7 three_reports subscribed]
  by (simp add: three_reports_run)
    (simp add: registry_defs input_defs instance_defs)

lemma call_unsubscribe_absent:
  "listeners r el = None \<Longrightarrow> el \<notin> observed r \<Longrightarrow> call_unsubscribe (Unsubscribe True el) r = Inr r"
  by (simp add: fun_upd_idem)

text \<open>
  C7. For a subscription made while an observer exists (it was created before, or the
  environment has \<open>IntersectionObserver\<close>): in every state of the registry the returned
  function does not throw and a second call changes nothing; and once the callback of
  the element has been called, a call of the function changes nothing at all.
\<close>

theorem unsubscribe_idempotent:
  assumes "io reg \<or> hasIOSupport e"
    and "listenToIntersections e el (cb :: 'cb) reg = (reg1, unsub)"
  shows "(\<forall>r :: 'cb registry. \<exists>r2.
            call_unsubscribe unsub r = Inr r2 \<and> call_unsubscribe unsub r2 = Inr r2)
       \<and> (\<forall>reports. calls_for el (snd (io_reports reports (reg1, []))) \<noteq> [] \<longrightarrow>
             call_unsubscribe unsub (fst (io_reports reports (reg1, [])))
               = Inr (fst (io_reports reports (reg1, []))))"
proof -
  from assms have u: "unsub = Unsubscribe True el"
    by (auto simp: listenToIntersections_registers hasIOSupport_def isBrowser_def)
  show ?thesis
  proof (intro conjI allI impI)
    fix r :: "'cb registry"
    show "\<exists>r2. call_unsubscribe unsub r = Inr r2 \<and> call_unsubscribe unsub r2 = Inr r2"
      by (simp add: u)
  next
    fix reports
    let ?s = "io_reports reports (reg1, [])"
    assume fired: "calls_for el (snd ?s) \<noteq> []"
    from io_reports_once [OF once_initial, of reports reg1]
    have "calls_for el (snd ?s) = [] \<or> (listeners (fst ?s) el = None \<and> el \<notin> observed (fst ?s))"
      by (simp add: once_def)
    with fired have "listeners (fst ?s) el = None" and "el \<notin> observed (fst ?s)"
      by simp_all
    then show "call_unsubscribe unsub (fst ?s) = Inr (fst ?s)"
      unfolding u by (rule call_unsubscribe_absent)
  qed
qed

theorem unsubscribe_idempotent_witness:
  "hasIOSupport io_browser
   \<and> listenToIntersections io_browser 7 HandleRefCallback empty_registry
        = (subscribed, Unsubscribe True 7)
   \<and> call_unsubscribe (Unsubscribe True 7) subscribed
        = Inr \<lparr>io = True, observed = {}, listeners = Map.empty\<rparr>
   \<and> call_unsubscribe (Unsubscribe True 7) \<lparr>io = True, observed = {}, listeners = Map.empty\<rparr>
        = Inr \<lparr>io = True, observed = {}, listeners = Map.empty :: elem \<rightharpoonup> callback\<rparr>
   \<and> calls_for 7 (snd (io_reports three_reports (subscribed, []))) \<noteq> []
   \<and> call_unsubscribe (Unsubscribe True 7) (fst (io_reports three_reports (subscribed, [])))
        = Inr (fst (io_reports three_reports (subscribed, [])))"
proof -
  have s: "hasIOSupport io_browser" by (simp add: hasIOSupport_def isBrowser_def input_defs)
  have l: "listenToIntersections io_browser 7 HandleRefCallback empty_registry
             = (subscribed, Unsubscribe True 7)"
    by (simp add: registry_defs input_defs instance_defs)
  have f: "calls_for 7 (snd (io_reports three_reports (subscribed, []))) \<noteq> []"
    by (simp add: three_reports_run calls_for_def)
  have c: "call_unsubscribe (Unsubscribe True 7) subscribed
             = Inr \<lparr>io = True, observed = {}, listeners = Map.empty\<rparr>"
    by (simp add: registry_defs input_defs instance_defs)
  from unsubscribe_idempotent [OF disjI2 [OF s] l] f
  have "call_unsubscribe (Unsubscribe True 7) (fst (io_reports three_reports (subscribed, [])))
          = Inr (fst (io_reports three_reports (subscribed, [])))"
    by blast
  with s l f c show ?thesis by simp
qed

text \<open>
  Without an observer \<open>listenToIntersections\<close> registers nothing, and the function it
  returns throws when called. \<open>handleRef\<close> calls \<open>listenToIntersections\<close> only under
  \<open>useIOSupport\<close>, which the constructor sets only when \<open>hasIOSupport\<close> holds.
\<close>

lemma unsubscribe_without_observer:
  assumes "\<not> io reg" and "\<not> hasIOSupport e"
  shows "listenToIntersections e el cb reg = (reg, Unsubscribe False el)
       \<and> call_unsubscribe (Unsubscribe False el) r = Inl TypeError"
  using assms
  by (simp add: listenToIntersections_def getIO_def hasIOSupport_def isBrowser_def Let_def)

lemma useIOSupport_needs_observer:
  "Image_constructor e c p = Inr ctl \<Longrightarrow> useIOSupport ctl \<Longrightarrow> hasIOSupport e"
  by (auto simp: Image_constructor_def new_controller_def split: if_splits sum.splits)

text \<open>
  So every closure an instance stores was made with an observer, and unmounting never
  throws.
\<close>

lemma component_unsubscribe_safe:
  assumes "Image_constructor e c p = Inr ctl"
    and "handleRef e ref (ctl, reg) = (ctl', reg')"
  shows "cleanUpListeners ctl' = None \<or> (\<exists>el. cleanUpListeners ctl' = Some (Unsubscribe True el))"
proof (cases "useIOSupport ctl")
  case False
  with assms(2) have "ctl' = ctl" by (simp add: handleRef_without_io)
  with assms(1) show ?thesis
    by (auto simp: Image_constructor_def new_controller_def split: if_splits sum.splits)
next
  case True
  with assms(1) have "hasIOSupport e" by (rule useIOSupport_needs_observer)
  then have "window_defined e \<and> window_IntersectionObserver e"
    by (simp add: hasIOSupport_def isBrowser_def)
  with assms True show ?thesis
    by (auto simp: handleRef_def listenToIntersections_registers Image_constructor_def
        new_controller_def split: option.splits if_splits sum.splits)
qed

lemma unmount_never_throws:
  assumes "Image_constructor e c p = Inr ctl"
    and "handleRef e ref (ctl, reg) = (ctl', reg')"
  shows "\<exists>r. componentWillUnmount (ctl', reg'') = Inr r"
  using component_unsubscribe_safe [OF assms]
  by (auto simp: componentWillUnmount_def)

subsection \<open>The presentation state\<close>

lemma convertProps_keeps:
  "imgStyle (convertProps p) = imgStyle p \<and> placeholderStyle (convertProps p) = placeholderStyle p
   \<and> durationFadeIn (convertProps p) = durationFadeIn p"
  by (simp add: convertProps_def Let_def split: option.splits)

lemma render_is_render_tag:
  "render ctl = Inr (RenderTag r) \<Longrightarrow> r = render_tag ctl (convertProps (props ctl))"
  by (auto simp: render_def Let_def split: option.splits list.splits)

text \<open>
  C3, as amended. Whenever \<open>render\<close> draws the image: \<open>shouldReveal\<close> is
  \<open>fadeIn = false or imgLoaded\<close>; \<open>shouldFadeIn\<close> is \<open>fadeIn = true and not imgCached\<close>;
  and, unless the caller's \<open>imgStyle\<close> or \<open>placeholderStyle\<close> sets the property itself,
  the placeholder's \<open>opacity\<close> is 0 when \<open>imgLoaded\<close> and 1 otherwise, and its
  \<open>transitionDelay\<close> is the fade duration when \<open>shouldFadeIn\<close> holds and absent when it
  does not.
\<close>

theorem presentation_state:
  assumes "render ctl = Inr (RenderTag r)"
  shows "shouldReveal r = (fadeIn (state ctl) = False \<or> imgLoaded (state ctl))
       \<and> shouldFadeIn r = (fadeIn (state ctl) = True \<and> \<not> imgCached (state ctl))
       \<and> (''opacity'' \<notin> dom (imgStyle (props ctl)) \<union> dom (placeholderStyle (props ctl)) \<longrightarrow>
            imagePlaceholderStyle r ''opacity'' = Some (Num (if imgLoaded (state ctl) then 0 else 1)))
       \<and> (''transitionDelay'' \<notin> dom (imgStyle (props ctl)) \<union> dom (placeholderStyle (props ctl)) \<longrightarrow>
            imagePlaceholderStyle r ''transitionDelay''
              = (if shouldFadeIn r then Some (Ms (durationFadeIn (props ctl))) else None))"
  unfolding render_is_render_tag [OF assms]
  by (auto simp: render_tag_def Let_def convertProps_keeps delayHideStyle_def map_add_def
      split: option.splits)

theorem presentation_state_witness:
  "render plain_ctl = Inr (RenderTag (render_tag plain_ctl (convertProps fluid_props)))
   \<and> ''opacity'' \<notin> dom (imgStyle (props plain_ctl)) \<union> dom (placeholderStyle (props plain_ctl))
   \<and> ''transitionDelay'' \<notin> dom (imgStyle (props plain_ctl)) \<union> dom (placeholderStyle (props plain_ctl))
   \<and> imgLoaded (state plain_ctl) = False
   \<and> shouldReveal (render_tag plain_ctl (convertProps fluid_props)) = False
   \<and> shouldFadeIn (render_tag plain_ctl (convertProps fluid_props)) = True
   \<and> imagePlaceholderStyle (render_tag plain_ctl (convertProps fluid_props)) ''opacity''
        = Some (Num 1)
   \<and> imagePlaceholderStyle (render_tag plain_ctl (convertProps fluid_props)) ''transitionDelay''
        = Some (Ms 500)"
proof -
  have r: "render plain_ctl = Inr (RenderTag (render_tag plain_ctl (convertProps fluid_props)))"
    by (simp add: mount_defs cache_defs input_defs instance_defs)
  have s: "imgStyle (props plain_ctl) = Map.empty" "placeholderStyle (props plain_ctl) = Map.empty"
    "imgLoaded (state plain_ctl) = False" "fadeIn (state plain_ctl) = True"
    "imgCached (state plain_ctl) = False" "durationFadeIn (props plain_ctl) = 500"
    by (simp_all add: mount_defs input_defs instance_defs)
  from presentation_state [OF r] r s show ?thesis by simp
qed

text \<open>
  The claim as stated fails for an instance whose caller passes its own placeholder
  style. Such an instance is built by the constructor and loaded by the load event of its
  image; \<open>render\<close> then gives the placeholder the caller's opacity 1 although
  \<open>imgLoaded\<close> holds, and the caller's \<open>transitionDelay\<close> although \<open>shouldFadeIn\<close>
  does not hold.
\<close>

theorem placeholder_style_override_counterexample:
  "Image_constructor plain_browser empty_cache styled_props = Inr styled_ctl
   \<and> dispatch LoadEvent (styled_ctl, empty_cache, []) = Inr (loaded_styled_ctl, {''a.jpg''}, [])
   \<and> render loaded_styled_ctl
        = Inr (RenderTag (render_tag loaded_styled_ctl (convertProps styled_props)))
   \<and> imgLoaded (state loaded_styled_ctl) = True
   \<and> imagePlaceholderStyle (render_tag loaded_styled_ctl (convertProps styled_props)) ''opacity''
        = Some (Num 1)
   \<and> imagePlaceholderStyle (render_tag loaded_styled_ctl (convertProps styled_props)) ''opacity''
        \<noteq> Some (Num 0)
   \<and> shouldFadeIn (render_tag loaded_styled_ctl (convertProps styled_props)) = False
   \<and> imagePlaceholderStyle (render_tag loaded_styled_ctl (convertProps styled_props))
        ''transitionDelay'' = Some (Ms 0)"
proof -
  have k: "Image_constructor plain_browser empty_cache styled_props = Inr styled_ctl"
    by (simp add: mount_defs cache_defs input_defs instance_defs)
  have d: "dispatch LoadEvent (styled_ctl, empty_cache, []) = Inr (loaded_styled_ctl, {''a.jpg''}, [])"
    by (simp add: dispatch_def run_handler_def mount_defs cache_defs input_defs instance_defs)
  have r: "render loaded_styled_ctl
             = Inr (RenderTag (render_tag loaded_styled_ctl (convertProps styled_props)))
           \<and> imgLoaded (state loaded_styled_ctl) = True
           \<and> imagePlaceholderStyle (render_tag loaded_styled_ctl (convertProps styled_props))
                ''opacity'' = Some (Num 1)
           \<and> shouldFadeIn (render_tag loaded_styled_ctl (convertProps styled_props)) = False
           \<and> imagePlaceholderStyle (render_tag loaded_styled_ctl (convertProps styled_props))
                ''transitionDelay'' = Some (Ms 0)"
    by (simp add: mount_defs cache_defs input_defs instance_defs)
  from k d r show ?thesis by simp
qed

subsection \<open>A deferred load from start to end\<close>

text \<open>
  The instance of \<open>fluid_props\<close> in a browser with \<open>IntersectionObserver\<close>: mounted
  it is not visible and element 1 is registered; the observer's report calls the
  callback once; the callback makes the instance visible and records that the element had
  a resolved source; the load event then sets \<open>imgLoaded\<close> and marks the cache.
\<close>

lemma deferred_load_scenario:
  "\<exists>ctl0 reg0 ctl1 ctl2.
     mount io_browser 1 complete_img fluid_props (empty_cache, empty_registry)
       = Inr ((ctl0, empty_cache, []), reg0)
     \<and> isVisible (state ctl0) = False
     \<and> listeners reg0 1 = Some HandleRefCallback
     \<and> snd (io_reports [[\<lparr>target = 1, isIntersecting = True, intersectionRatio = 1\<rparr>]] (reg0, []))
          = [(1, HandleRefCallback, \<lparr>io = True, observed = {}, listeners = Map.empty\<rparr>)]
     \<and> handleRef_callback complete_img (ctl0, empty_cache, []) = Inr (ctl1, empty_cache, [])
     \<and> state ctl1 = \<lparr>isVisible = True, imgLoaded = False, imgCached = True, fadeIn = True\<rparr>
     \<and> dispatch LoadEvent (ctl1, empty_cache, []) = Inr (ctl2, {''a.jpg''}, [])
     \<and> state ctl2 = \<lparr>isVisible = True, imgLoaded = True, imgCached = True, fadeIn = True\<rparr>"
  by (simp add: handleRef_callback_def dispatch_def run_handler_def io_reports_def
      io_callback_def handle_entry_def Let_def mount_defs cache_defs input_defs)

end
